theory Spec2Isabelle
  imports Main "HOL-Library.Sublist"
begin

section \<open>The containerd client wrapper of eliot (package runtime)\<close>

text \<open>
  The wrapper \<^verbatim>\<open>ContainerdClient\<close> talks to a container runtime engine. The engine is
  not part of the program: it is a parameter of the model, a record of functions that
  answer each call the wrapper makes, threading a state of their own. Every call the
  wrapper makes is appended, with its arguments and its answer, to a trace, so that
  what the wrapper did (and did not do) can be read off afterwards. Log lines
  (\<^verbatim>\<open>log.Debugf\<close>, \<^verbatim>\<open>log.Warnf\<close>) are not part of the model.
\<close>

subsection \<open>Errors and their messages\<close>

text \<open>
  An error coming out of the engine carries three things: whether it is the engine's
  not-found error (containerd's \<^verbatim>\<open>errdefs.ErrNotFound\<close>, what the containerd client
  returns for a container without a task), whether the value implements the marker
  interface \<^verbatim>\<open>ErrNotFound\<close> of docker's \<^verbatim>\<open>api/errdefs\<close>, and its text. The wrapper
  imports docker's \<^verbatim>\<open>errdefs\<close> (line 12), so its \<^verbatim>\<open>errdefs.IsNotFound\<close> looks at the
  marker. The errors of the containerd client do not implement docker's marker; only a
  stand-in for the engine can produce one that does. \<^verbatim>\<open>errors.Wrap\<close> and
  \<^verbatim>\<open>errors.Wrapf\<close> of \<^verbatim>\<open>github.com/pkg/errors\<close> put a message in front of a cause.
\<close>

datatype engine_error =
  EngineError (not_found: bool) (docker_marker: bool) (err_text: string)

datatype error = Cause engine_error | WithMessage string error

fun Error :: "error \<Rightarrow> string" where
  "Error (Cause e) = err_text e"
| "Error (WithMessage msg err) = msg @ '': '' @ Error err"

fun IsNotFound :: "error \<Rightarrow> bool" where
  "IsNotFound (Cause e) = docker_marker e"
| "IsNotFound (WithMessage msg err) = IsNotFound err"

text \<open>
  \<^verbatim>\<open>fmt.Sprintf\<close>, for the one verb the wrapper's error paths use (\<^verbatim>\<open>%s\<close>) and string
  operands. An operand that no verb consumes is reported at the end of the output as
  \<^verbatim>\<open>%!(EXTRA string=...)\<close>, a verb without operand as \<^verbatim>\<open>%!s(MISSING)\<close>.
\<close>

fun extra_operands :: "string list \<Rightarrow> string" where
  "extra_operands [] = []"
| "extra_operands [a] = ''string='' @ a"
| "extra_operands (a # b # as) = ''string='' @ a @ '', '' @ extra_operands (b # as)"

fun Sprintf :: "string \<Rightarrow> string list \<Rightarrow> string" where
  "Sprintf [] as = (if as = [] then [] else ''%!(EXTRA '' @ extra_operands as @ '')'')"
| "Sprintf [c] as = c # Sprintf [] as"
| "Sprintf (c # d # fs) as =
     (if c = CHR ''%'' \<and> d = CHR ''s''
      then (case as of
              [] \<Rightarrow> ''%!s(MISSING)'' @ Sprintf fs []
            | a # as' \<Rightarrow> a @ Sprintf fs as')
      else c # Sprintf (d # fs) as)"

definition Wrap :: "error \<Rightarrow> string \<Rightarrow> error" where
  "Wrap err message = WithMessage message err"

definition Wrapf :: "error \<Rightarrow> string \<Rightarrow> string list \<Rightarrow> error" where
  "Wrapf err format args = WithMessage (Sprintf format args) err"

subsection \<open>Data\<close>

type_synonym duration = int

text \<open>
  A \<^verbatim>\<open>context.Context\<close>: the background context, or one derived from a parent by
  \<^verbatim>\<open>context.WithTimeout\<close> or \<^verbatim>\<open>context.WithCancel\<close>. Each derivation makes a new
  object; the number tells the objects apart.
\<close>

datatype ctx = Background | WithTimeout ctx duration nat | WithCancel ctx nat

text \<open>A \<^verbatim>\<open>*containerd.Client\<close>: one dialled connection, bound to a namespace.\<close>

record connection =
  conn_id :: nat
  conn_address :: string
  conn_namespace :: string

record ContainerdClient =
  client :: "connection option"
  context_c :: ctx
  timeout :: duration
  address :: string

definition NewContainerdClient :: "ctx \<Rightarrow> duration \<Rightarrow> string \<Rightarrow> ContainerdClient" where
  "NewContainerdClient context' timeout' address' =
     \<lparr>client = None, context_c = context', timeout = timeout', address = address'\<rparr>"

text \<open>
  Modelled from the spec: the pod and container descriptors of package \<^verbatim>\<open>model\<close> are
  not among the sources. The wrapper reads the pod's namespace, the container's id and
  its image reference.
\<close>

record Pod =
  pod_name :: string
  pod_namespace :: string

record Container =
  ID :: string
  Image :: string

definition GetNamespace :: "Pod \<Rightarrow> string" where
  "GetNamespace pod = pod_namespace pod"

text \<open>
  The handles of the containerd client library. An image, a container and a task each
  hold the client they were made on (the library builds them with
  \<^verbatim>\<open>client: c\<close>), and every call on a handle goes over that client.
\<close>

record image =
  image_Name :: string
  image_Digest :: string
  image_client :: connection

record container =
  container_ID :: string
  container_client :: connection

record task =
  task_Pid :: nat
  task_client :: connection

definition image_on :: "connection \<Rightarrow> string \<times> string \<Rightarrow> image" where
  "image_on conn answer = \<lparr>image_Name = fst answer, image_Digest = snd answer, image_client = conn\<rparr>"

definition container_on :: "connection \<Rightarrow> string \<Rightarrow> container" where
  "container_on conn containerID = \<lparr>container_ID = containerID, container_client = conn\<rparr>"

definition task_on :: "connection \<Rightarrow> nat \<Rightarrow> task" where
  "task_on conn pid = \<lparr>task_Pid = pid, task_client = conn\<rparr>"

datatype oci_spec = OciSpec string

record namespace =
  Name :: string

text \<open>
  The reply of the task service's \<^verbatim>\<open>Get\<close>. Its field \<^verbatim>\<open>Process\<close> is a pointer: a
  reply may carry no process. The status of a process is a protobuf enumeration value.
  Reading a field through a nil pointer panics.
\<close>

record process =
  Status :: int

record get_response =
  Process :: "process option"

datatype panic = NilPointerDereference

record new_container_opts =
  opt_labels :: "(string \<times> string) list"
  opt_spec :: oci_spec
  opt_snapshotter :: string
  opt_snapshot_view :: "string \<times> image"
  opt_runtime :: string

definition snapshotter :: string where
  "snapshotter = ''overlayfs''"

text \<open>
  What the wrapper uses and the sources do not define: the constants
  \<^verbatim>\<open>model.DefaultNamespace\<close> and \<^verbatim>\<open>plugin.RuntimePlugin\<close>, the helper
  \<^verbatim>\<open>getContainerLabels\<close> and the \<^verbatim>\<open>String\<close> method of the process status.
\<close>

record externals =
  DefaultNamespace :: string
  RuntimePlugin :: string
  getContainerLabels :: "Pod \<Rightarrow> Container \<Rightarrow> (string \<times> string) list"
  Status_String :: "int \<Rightarrow> string"

subsection \<open>The engine, the trace and the state\<close>

type_synonym failure = "engine_error option"

text \<open>
  One function per call of the containerd API the wrapper makes. Each takes the call's
  arguments and the engine's state, and gives the answer and the engine's next state.
  For a call that returns only an \<^verbatim>\<open>error\<close>, \<open>None\<close> is Go's \<^verbatim>\<open>nil\<close>. The engine
  answers with data (the ids of the containers, the name and digest of the image, the
  pid of the task); the handle around the data is built by the client library, see
  \<open>invoke_with\<close> below.
\<close>

record 'e engine =
  New :: "string \<Rightarrow> string \<Rightarrow> 'e \<Rightarrow> failure \<times> 'e"
  Containers :: "connection \<Rightarrow> ctx \<Rightarrow> 'e \<Rightarrow> (engine_error + string list) \<times> 'e"
  Pull :: "connection \<Rightarrow> ctx \<Rightarrow> string \<Rightarrow> 'e \<Rightarrow> (engine_error + string \<times> string) \<times> 'e"
  Unpack :: "image \<Rightarrow> ctx \<Rightarrow> string \<Rightarrow> 'e \<Rightarrow> failure \<times> 'e"
  GenerateSpec :: "ctx \<Rightarrow> connection \<Rightarrow> image \<Rightarrow> 'e \<Rightarrow> (engine_error + oci_spec) \<times> 'e"
  NewContainer ::
    "connection \<Rightarrow> ctx \<Rightarrow> string \<Rightarrow> new_container_opts \<Rightarrow> 'e \<Rightarrow> (engine_error + string) \<times> 'e"
  NewTask :: "container \<Rightarrow> ctx \<Rightarrow> 'e \<Rightarrow> (engine_error + nat) \<times> 'e"
  Start :: "task \<Rightarrow> ctx \<Rightarrow> 'e \<Rightarrow> failure \<times> 'e"
  Task :: "container \<Rightarrow> ctx \<Rightarrow> 'e \<Rightarrow> (engine_error + nat) \<times> 'e"
  Task_Delete :: "task \<Rightarrow> ctx \<Rightarrow> 'e \<Rightarrow> failure \<times> 'e"
  Container_Delete :: "container \<Rightarrow> ctx \<Rightarrow> 'e \<Rightarrow> failure \<times> 'e"
  Namespaces_List :: "connection \<Rightarrow> ctx \<Rightarrow> 'e \<Rightarrow> (engine_error + namespace list) \<times> 'e"
  Tasks_Get :: "connection \<Rightarrow> ctx \<Rightarrow> string \<Rightarrow> 'e \<Rightarrow> (engine_error + get_response) \<times> 'e"

text \<open>
  The trace: the contexts derived and cancelled, the wrapper's own
  \<^verbatim>\<open>resetConnection\<close> and \<^verbatim>\<open>ensureImagePulled\<close> as they are entered, and every engine
  call with its answer. A dial is recorded with the connection it would give.
\<close>

datatype event =
    DeriveContext ctx
  | CancelContext ctx
  | ResetConnection
  | EnsureImagePulled string string
  | EvNew connection failure
  | EvContainers connection ctx "engine_error + container list"
  | EvPull connection ctx string "engine_error + image"
  | EvUnpack image ctx string failure
  | EvGenerateSpec ctx connection image "engine_error + oci_spec"
  | EvNewContainer connection ctx string new_container_opts "engine_error + container"
  | EvNewTask container ctx "engine_error + task"
  | EvStart task ctx failure
  | EvTask container ctx "engine_error + task"
  | EvTaskDelete task ctx failure
  | EvContainerDelete container ctx failure
  | EvNamespacesList connection ctx "engine_error + namespace list"
  | EvTasksGet connection ctx string "engine_error + get_response"

text \<open>
  The state: the wrapper's fields (\<open>self\<close>, the receiver \<^verbatim>\<open>c\<close>), the engine's state,
  the trace so far and the number of the next object (context or connection) made.
\<close>

record 'e world =
  self :: ContainerdClient
  engine_state :: 'e
  trace :: "event list"
  next_id :: nat

definition emit :: "event \<Rightarrow> 'e world \<Rightarrow> 'e world" where
  "emit ev w = w\<lparr>trace := trace w @ [ev]\<rparr>"

definition invoke :: "('e \<Rightarrow> 'r \<times> 'e) \<Rightarrow> ('r \<Rightarrow> event) \<Rightarrow> 'e world \<Rightarrow> 'r \<times> 'e world" where
  "invoke f ev w =
     (case f (engine_state w) of
        (r, s) \<Rightarrow> (r, w\<lparr>engine_state := s, trace := trace w @ [ev r]\<rparr>))"

text \<open>
  A call whose answer the client library turns into a handle: the event and the caller
  get the handle.
\<close>

definition invoke_with ::
  "('a \<Rightarrow> 'b) \<Rightarrow> ('e \<Rightarrow> (engine_error + 'a) \<times> 'e) \<Rightarrow> (engine_error + 'b \<Rightarrow> event) \<Rightarrow> 'e world
     \<Rightarrow> (engine_error + 'b) \<times> 'e world" where
  "invoke_with handle f ev w =
     invoke (\<lambda>s. case f s of (r, s') \<Rightarrow> (map_sum id handle r, s')) ev w"

definition emitted :: "'e world \<Rightarrow> 'e world \<Rightarrow> event list" where
  "emitted w w' = drop (length (trace w)) (trace w')"

subsection \<open>Contexts and connections\<close>

definition getContext :: "'e world \<Rightarrow> ctx \<times> 'e world" where
  "getContext w =
     (let c = self w;
          ctx = (if timeout c > 0
                 then WithTimeout (context_c c) (timeout c) (next_id w)
                 else WithCancel (context_c c) (next_id w))
      in (ctx, emit (DeriveContext ctx) (w\<lparr>next_id := Suc (next_id w)\<rparr>)))"

definition cancel :: "ctx \<Rightarrow> 'e world \<Rightarrow> 'e world" where
  "cancel ctx w = emit (CancelContext ctx) w"

text \<open>
  \<^verbatim>\<open>containerd.New\<close> makes a new client object on every call; the engine decides only
  whether the dial succeeds.
\<close>

definition getConnection :: "'e engine \<Rightarrow> string \<Rightarrow> 'e world \<Rightarrow> (error + connection) \<times> 'e world" where
  "getConnection E namespace w =
     (let conn = \<lparr>conn_id = next_id w, conn_address = address (self w),
                  conn_namespace = namespace\<rparr>
      in case invoke (New E (address (self w)) namespace) (EvNew conn)
                (w\<lparr>next_id := Suc (next_id w)\<rparr>) of
           (Some err, w') \<Rightarrow>
             (Inl (Wrapf (Cause err) ''Unable to create connection to containerd'' []), w')
         | (None, w') \<Rightarrow> (Inr conn, w'))"

definition resetConnection :: "'e world \<Rightarrow> 'e world" where
  "resetConnection w = emit ResetConnection (w\<lparr>self := (self w)\<lparr>client := None\<rparr>\<rparr>)"

subsection \<open>The operations\<close>

text \<open>
  Every operation starts with \<^verbatim>\<open>ctx, cancel := c.getContext(); defer cancel()\<close>:
  the body runs with the context, and \<^verbatim>\<open>cancel\<close> runs when the body has returned
  or panicked.
\<close>

definition with_context :: "(ctx \<Rightarrow> 'e world \<Rightarrow> 'r \<times> 'e world) \<Rightarrow> 'e world \<Rightarrow> 'r \<times> 'e world" where
  "with_context body w =
     (case getContext w of
        (ctx, w0) \<Rightarrow> (case body ctx w0 of (r, w') \<Rightarrow> (r, cancel ctx w')))"

definition GetContainers_body ::
  "'e engine \<Rightarrow> string \<Rightarrow> ctx \<Rightarrow> 'e world \<Rightarrow> (error + container list) \<times> 'e world" where
  "GetContainers_body E namespace ctx w =
     (case getConnection E namespace w of
        (Inl err, w1) \<Rightarrow> (Inl err, w1)
      | (Inr conn, w1) \<Rightarrow>
          (case invoke_with (map (container_on conn)) (Containers E conn ctx)
                  (EvContainers conn ctx) w1 of
             (Inl err, w2) \<Rightarrow>
               (Inl (Wrap (Cause err) ''Error while getting list of containers''),
                resetConnection w2)
           | (Inr containers, w2) \<Rightarrow> (Inr containers, w2)))"

definition GetContainers ::
  "'e engine \<Rightarrow> string \<Rightarrow> 'e world \<Rightarrow> (error + container list) \<times> 'e world" where
  "GetContainers E namespace = with_context (GetContainers_body E namespace)"

definition ensureImagePulled_body ::
  "'e engine \<Rightarrow> string \<Rightarrow> string \<Rightarrow> ctx \<Rightarrow> 'e world \<Rightarrow> (error + image) \<times> 'e world" where
  "ensureImagePulled_body E namespace ref ctx w =
     (case getConnection E namespace w of
        (Inl err, w1) \<Rightarrow> (Inl err, w1)
      | (Inr conn, w1) \<Rightarrow>
          (case invoke_with (image_on conn) (Pull E conn ctx ref) (EvPull conn ctx ref) w1 of
             (Inl err, w2) \<Rightarrow>
               (Inl (Wrapf (Cause err) ''Error pulling image [%s]'' [ref]), resetConnection w2)
           | (Inr img, w2) \<Rightarrow>
               (case invoke (Unpack E img ctx snapshotter) (EvUnpack img ctx snapshotter) w2 of
                  (Some err, w3) \<Rightarrow>
                    (Inl (Wrapf (Cause err) ''Error while unpacking image [%s]''
                            [image_Digest img]),
                     resetConnection w3)
                | (None, w3) \<Rightarrow> (Inr img, w3))))"

definition ensureImagePulled ::
  "'e engine \<Rightarrow> string \<Rightarrow> string \<Rightarrow> 'e world \<Rightarrow> (error + image) \<times> 'e world" where
  "ensureImagePulled E namespace ref w =
     with_context (ensureImagePulled_body E namespace ref) (emit (EnsureImagePulled namespace ref) w)"

definition container_opts ::
  "externals \<Rightarrow> Pod \<Rightarrow> Container \<Rightarrow> oci_spec \<Rightarrow> image \<Rightarrow> new_container_opts" where
  "container_opts X pod container spec img =
     \<lparr>opt_labels = getContainerLabels X pod container,
      opt_spec = spec,
      opt_snapshotter = snapshotter,
      opt_snapshot_view = (ID container, img),
      opt_runtime = Sprintf ''%s.%s'' [RuntimePlugin X, ''linux'']\<rparr>"

definition CreateContainer_body ::
  "'e engine \<Rightarrow> externals \<Rightarrow> Pod \<Rightarrow> Container \<Rightarrow> ctx \<Rightarrow> 'e world
     \<Rightarrow> (error + container) \<times> 'e world" where
  "CreateContainer_body E X pod container ctx w =
     (case getConnection E (GetNamespace pod) w of
        (Inl err, w1) \<Rightarrow> (Inl err, w1)
      | (Inr conn, w1) \<Rightarrow>
          (case ensureImagePulled E (GetNamespace pod) (Image container) w1 of
             (Inl err, w2) \<Rightarrow> (Inl err, w2)
           | (Inr img, w2) \<Rightarrow>
               (case invoke (GenerateSpec E ctx conn img) (EvGenerateSpec ctx conn img) w2 of
                  (Inl err, w3) \<Rightarrow> (Inl (Cause err), w3)
                | (Inr spec, w3) \<Rightarrow>
                    (let opts = container_opts X pod container spec img
                     in case invoke_with (container_on conn)
                               (NewContainer E conn ctx (ID container) opts)
                               (EvNewContainer conn ctx (ID container) opts) w3 of
                          (Inl err, w4) \<Rightarrow>
                            (Inl (Wrapf (Cause err)
                                    ''Failed to create new container from image %s''
                                    [image_Name img]),
                             resetConnection w4)
                        | (Inr created, w4) \<Rightarrow> (Inr created, w4)))))"

definition CreateContainer ::
  "'e engine \<Rightarrow> externals \<Rightarrow> Pod \<Rightarrow> Container \<Rightarrow> 'e world \<Rightarrow> (error + container) \<times> 'e world" where
  "CreateContainer E X pod container = with_context (CreateContainer_body E X pod container)"

definition StartContainer_body ::
  "'e engine \<Rightarrow> container \<Rightarrow> ctx \<Rightarrow> 'e world \<Rightarrow> error option \<times> 'e world" where
  "StartContainer_body E container ctx w =
     (case invoke_with (task_on (container_client container)) (NewTask E container ctx)
             (EvNewTask container ctx) w of
        (Inl err, w1) \<Rightarrow>
          (Some (Wrapf (Cause err) ''Error while creating task for container [%s]''
                   [container_ID container]),
           resetConnection w1)
      | (Inr tsk, w1) \<Rightarrow>
          (case invoke (Start E tsk ctx) (EvStart tsk ctx) w1 of
             (Some err, w2) \<Rightarrow>
               (Some (Wrapf (Cause err) ''Failed to start task in container''
                        [container_ID container]),
                resetConnection w2)
           | (None, w2) \<Rightarrow> (None, w2)))"

definition StartContainer :: "'e engine \<Rightarrow> container \<Rightarrow> 'e world \<Rightarrow> error option \<times> 'e world" where
  "StartContainer E container = with_context (StartContainer_body E container)"

definition StopContainer_body ::
  "'e engine \<Rightarrow> container \<Rightarrow> ctx \<Rightarrow> 'e world \<Rightarrow> error option \<times> 'e world" where
  "StopContainer_body E container ctx w =
     (let w2 = (case invoke_with (task_on (container_client container)) (Task E container ctx)
                       (EvTask container ctx) w of
                  (Inl err, w1) \<Rightarrow> w1
                | (Inr tsk, w1) \<Rightarrow> snd (invoke (Task_Delete E tsk ctx) (EvTaskDelete tsk ctx) w1))
      in case invoke (Container_Delete E container ctx) (EvContainerDelete container ctx) w2 of
           (Some err, w3) \<Rightarrow>
             (Some (Wrapf (Cause err) ''Failed to delete container %s'' [container_ID container]),
              resetConnection w3)
         | (None, w3) \<Rightarrow> (None, w3))"

definition StopContainer :: "'e engine \<Rightarrow> container \<Rightarrow> 'e world \<Rightarrow> error option \<times> 'e world" where
  "StopContainer E container = with_context (StopContainer_body E container)"

text \<open>The loop of \<^verbatim>\<open>getNamespaces\<close>, with \<open>result\<close> what has been appended so far.\<close>

fun getNamespaces_loop :: "namespace list \<Rightarrow> string list \<Rightarrow> string list" where
  "getNamespaces_loop [] result = result"
| "getNamespaces_loop (namespace # namespaces) result =
     getNamespaces_loop namespaces
       (if Name namespace \<noteq> ''default'' then result @ [Name namespace] else result)"

definition getNamespaces :: "namespace list \<Rightarrow> string list" where
  "getNamespaces namespaces = getNamespaces_loop namespaces []"

definition GetNamespaces_body ::
  "'e engine \<Rightarrow> externals \<Rightarrow> ctx \<Rightarrow> 'e world \<Rightarrow> (error + string list) \<times> 'e world" where
  "GetNamespaces_body E X ctx w =
     (case getConnection E (DefaultNamespace X) w of
        (Inl err, w1) \<Rightarrow> (Inl err, w1)
      | (Inr conn, w1) \<Rightarrow>
          (case invoke (Namespaces_List E conn ctx) (EvNamespacesList conn ctx) w1 of
             (Inl err, w2) \<Rightarrow> (Inl (Cause err), w2)
           | (Inr resp, w2) \<Rightarrow> (Inr (getNamespaces resp), w2)))"

definition GetNamespaces :: "'e engine \<Rightarrow> externals \<Rightarrow> 'e world \<Rightarrow> (error + string list) \<times> 'e world" where
  "GetNamespaces E X = with_context (GetNamespaces_body E X)"

definition IsContainerRunning_body ::
  "'e engine \<Rightarrow> container \<Rightarrow> ctx \<Rightarrow> 'e world \<Rightarrow> (bool \<times> error option) \<times> 'e world" where
  "IsContainerRunning_body E container ctx w =
     (case invoke_with (task_on (container_client container)) (Task E container ctx)
             (EvTask container ctx) w of
        (Inl err, w1) \<Rightarrow>
          (if IsNotFound (Cause err) then ((False, None), w1)
           else ((False, Some (Cause err)), w1))
      | (Inr tsk, w1) \<Rightarrow> ((True, None), w1))"

definition IsContainerRunning ::
  "'e engine \<Rightarrow> container \<Rightarrow> 'e world \<Rightarrow> (bool \<times> error option) \<times> 'e world" where
  "IsContainerRunning E container = with_context (IsContainerRunning_body E container)"

text \<open>
  \<^verbatim>\<open>resp.Process.Status.String()\<close> reads through the pointer \<^verbatim>\<open>resp.Process\<close> with no
  check. The deferred \<^verbatim>\<open>cancel\<close> runs while the panic unwinds.
\<close>

definition GetContainerTaskStatus_body ::
  "'e engine \<Rightarrow> externals \<Rightarrow> string \<Rightarrow> ctx \<Rightarrow> 'e world \<Rightarrow> (panic + string) \<times> 'e world" where
  "GetContainerTaskStatus_body E X containerID ctx w =
     (case getConnection E (DefaultNamespace X) w of
        (Inl err, w1) \<Rightarrow> (Inr ''UNKNOWN'', w1)
      | (Inr conn, w1) \<Rightarrow>
          (case invoke (Tasks_Get E conn ctx containerID) (EvTasksGet conn ctx containerID) w1 of
             (Inl err, w2) \<Rightarrow> (Inr ''UNKNOWN'', w2)
           | (Inr resp, w2) \<Rightarrow>
               (case Process resp of
                  None \<Rightarrow> (Inl NilPointerDereference, w2)
                | Some p \<Rightarrow> (Inr (Status_String X (Status p)), w2))))"

definition GetContainerTaskStatus ::
  "'e engine \<Rightarrow> externals \<Rightarrow> string \<Rightarrow> 'e world \<Rightarrow> (panic + string) \<times> 'e world" where
  "GetContainerTaskStatus E X containerID = with_context (GetContainerTaskStatus_body E X containerID)"

subsection \<open>Sequences of operations\<close>

datatype operation =
    OpGetContainers string
  | OpCreateContainer Pod Container
  | OpStartContainer container
  | OpStopContainer container
  | OpGetNamespaces
  | OpIsContainerRunning container
  | OpGetContainerTaskStatus string

text \<open>
  A handle given to an operation exists already, wherever it comes from. The objects
  made after the operation are numbered after the connection the handle holds.
\<close>

definition observe :: "container \<Rightarrow> 'e world \<Rightarrow> 'e world" where
  "observe container w =
     w\<lparr>next_id := max (next_id w) (Suc (conn_id (container_client container)))\<rparr>"

fun perform :: "'e engine \<Rightarrow> externals \<Rightarrow> operation \<Rightarrow> 'e world \<Rightarrow> 'e world" where
  "perform E X (OpGetContainers namespace) w = snd (GetContainers E namespace w)"
| "perform E X (OpCreateContainer pod container) w = snd (CreateContainer E X pod container w)"
| "perform E X (OpStartContainer container) w =
     observe container (snd (StartContainer E container w))"
| "perform E X (OpStopContainer container) w =
     observe container (snd (StopContainer E container w))"
| "perform E X OpGetNamespaces w = snd (GetNamespaces E X w)"
| "perform E X (OpIsContainerRunning container) w =
     observe container (snd (IsContainerRunning E container w))"
| "perform E X (OpGetContainerTaskStatus containerID) w =
     snd (GetContainerTaskStatus E X containerID w)"

fun perform_all :: "'e engine \<Rightarrow> externals \<Rightarrow> operation list \<Rightarrow> 'e world \<Rightarrow> 'e world" where
  "perform_all E X [] w = w"
| "perform_all E X (op # ops) w = perform_all E X ops (perform E X op w)"

fun handle_of :: "operation \<Rightarrow> container option" where
  "handle_of (OpStartContainer container) = Some container"
| "handle_of (OpStopContainer container) = Some container"
| "handle_of (OpIsContainerRunning container) = Some container"
| "handle_of op = None"

text \<open>The state a new wrapper starts in: nothing traced, no object made yet.\<close>

definition initial :: "ctx \<Rightarrow> duration \<Rightarrow> string \<Rightarrow> 'e \<Rightarrow> 'e world" where
  "initial context' timeout' address' s =
     \<lparr>self = NewContainerdClient context' timeout' address', engine_state = s,
      trace = [], next_id = 0\<rparr>"

subsection \<open>Reading a trace\<close>

fun is_dial :: "event \<Rightarrow> bool" where
  "is_dial (EvNew conn r) = True"
| "is_dial ev = False"

fun is_ensure :: "event \<Rightarrow> bool" where
  "is_ensure (EnsureImagePulled namespace ref) = True"
| "is_ensure ev = False"

fun is_create :: "event \<Rightarrow> bool" where
  "is_create (EvNewContainer conn ctx containerID opts r) = True"
| "is_create ev = False"


fun pull_failed :: "event \<Rightarrow> bool" where
  "pull_failed (EvPull conn ctx ref (Inl err)) = True"
| "pull_failed ev = False"

fun unpack_failed :: "event \<Rightarrow> bool" where
  "unpack_failed (EvUnpack img ctx name (Some err)) = True"
| "unpack_failed ev = False"

text \<open>
  The connection an engine call goes over: the client it is made on, or the client held
  by the handle it is made on.
\<close>

fun event_conn :: "event \<Rightarrow> connection option" where
  "event_conn (EvNew conn r) = Some conn"
| "event_conn (EvContainers conn ctx r) = Some conn"
| "event_conn (EvPull conn ctx ref r) = Some conn"
| "event_conn (EvUnpack img ctx name r) = Some (image_client img)"
| "event_conn (EvGenerateSpec ctx conn img r) = Some conn"
| "event_conn (EvNewContainer conn ctx containerID opts r) = Some conn"
| "event_conn (EvNewTask container ctx r) = Some (container_client container)"
| "event_conn (EvStart tsk ctx r) = Some (task_client tsk)"
| "event_conn (EvTask container ctx r) = Some (container_client container)"
| "event_conn (EvTaskDelete tsk ctx r) = Some (task_client tsk)"
| "event_conn (EvContainerDelete container ctx r) = Some (container_client container)"
| "event_conn (EvNamespacesList conn ctx r) = Some conn"
| "event_conn (EvTasksGet conn ctx containerID r) = Some conn"
| "event_conn ev = None"

text \<open>The connection a dial makes.\<close>

fun dial_conn :: "event \<Rightarrow> connection option" where
  "dial_conn (EvNew conn r) = Some conn"
| "dial_conn ev = None"

text \<open>The connections of a trace, in the order of the calls made on them.\<close>

definition connections :: "event list \<Rightarrow> connection list" where
  "connections evs = List.map_filter event_conn evs"

definition dials :: "event list \<Rightarrow> connection list" where
  "dials evs = List.map_filter dial_conn evs"

text \<open>The context an operation entered in state \<open>w\<close> runs with.\<close>

definition op_context :: "'e world \<Rightarrow> ctx" where
  "op_context w = fst (getContext w)"

definition count_events :: "(event \<Rightarrow> bool) \<Rightarrow> event list \<Rightarrow> nat" where
  "count_events P evs = length (filter P evs)"

subsection \<open>Engines to run the wrapper against\<close>

text \<open>
  An error that is not a not-found error, the error the containerd client returns for a
  container that has no task (the engine's not-found, without docker's marker), and an
  error carrying docker's marker, which only a stand-in for the engine produces.
\<close>

definition boom :: engine_error where
  "boom = EngineError False False ''boom''"

definition gone :: engine_error where
  "gone = EngineError True False ''no running task found: not found''"

definition marked :: engine_error where
  "marked = EngineError True True ''not found''"

text \<open>An engine on which every call succeeds.\<close>

definition ok_engine :: "unit engine" where
  "ok_engine =
     \<lparr>New = (\<lambda>addr namespace s. (None, s)),
      Containers = (\<lambda>conn ctx s. (Inr [''c1''], s)),
      Pull = (\<lambda>conn ctx ref s. (Inr (ref, ''sha256:0a''), s)),
      Unpack = (\<lambda>img ctx name s. (None, s)),
      GenerateSpec = (\<lambda>ctx conn img s. (Inr (OciSpec ''spec''), s)),
      NewContainer = (\<lambda>conn ctx containerID opts s. (Inr containerID, s)),
      NewTask = (\<lambda>container ctx s. (Inr 42, s)),
      Start = (\<lambda>tsk ctx s. (None, s)),
      Task = (\<lambda>container ctx s. (Inr 42, s)),
      Task_Delete = (\<lambda>tsk ctx s. (None, s)),
      Container_Delete = (\<lambda>container ctx s. (None, s)),
      Namespaces_List =
        (\<lambda>conn ctx s. (Inr [\<lparr>Name = ''default''\<rparr>, \<lparr>Name = ''staging''\<rparr>, \<lparr>Name = ''prod''\<rparr>], s)),
      Tasks_Get = (\<lambda>conn ctx containerID s. (Inr \<lparr>Process = Some \<lparr>Status = 2\<rparr>\<rparr>, s))\<rparr>"

text \<open>
  The names of the process statuses that every version of the enumeration has; any
  other value is rendered in decimal, as \<^verbatim>\<open>proto.EnumName\<close> does for a value without a
  name.
\<close>

fun decimal :: "nat \<Rightarrow> string" where
  "decimal n =
     (if n < 10 then [char_of (48 + n)]
      else decimal (n div 10) @ [char_of (48 + n mod 10)])"

definition Itoa :: "int \<Rightarrow> string" where
  "Itoa i = (if i < 0 then CHR ''-'' # decimal (nat (- i)) else decimal (nat i))"

definition status_name :: "int \<Rightarrow> string" where
  "status_name n =
     (if n = 0 then ''UNKNOWN'' else if n = 1 then ''CREATED'' else if n = 2 then ''RUNNING''
      else if n = 3 then ''STOPPED'' else if n = 4 then ''PAUSED'' else Itoa n)"

definition test_externals :: externals where
  "test_externals =
     \<lparr>DefaultNamespace = ''eliot'',
      RuntimePlugin = ''io.containerd.runtime.v1'',
      getContainerLabels = (\<lambda>pod container. [(''pod'', pod_name pod), (''container'', ID container)]),
      Status_String = status_name\<rparr>"

definition w0 :: "unit world" where
  "w0 = initial Background 0 ''/run/containerd/containerd.sock'' ()"

definition edge_pod :: Pod where
  "edge_pod = \<lparr>pod_name = ''p1'', pod_namespace = ''edge''\<rparr>"

definition c1 :: Container where
  "c1 = \<lparr>ID = ''c1'', Image = ''reg/app:1''\<rparr>"

text \<open>
  The handle of container \<open>c1\<close> on the first connection dialled for namespace \<open>edge\<close>:
  what \<^verbatim>\<open>CreateContainer\<close> and \<^verbatim>\<open>GetContainers\<close> return in the initial state.
\<close>

definition c1_handle :: container where
  "c1_handle =
     \<lparr>container_ID = ''c1'',
      container_client =
        \<lparr>conn_id = 1, conn_address = ''/run/containerd/containerd.sock'',
           conn_namespace = ''edge''\<rparr>\<rparr>"

text \<open>Engines on which one call fails and every other call succeeds.\<close>

definition down_engine :: "unit engine" where
  "down_engine = ok_engine\<lparr>New := (\<lambda>addr namespace s. (Some boom, s))\<rparr>"

definition pull_fails :: "unit engine" where
  "pull_fails = ok_engine\<lparr>Pull := (\<lambda>conn ctx ref s. (Inl boom, s))\<rparr>"

definition unpack_fails :: "unit engine" where
  "unpack_fails = ok_engine\<lparr>Unpack := (\<lambda>img ctx name s. (Some boom, s))\<rparr>"

definition spec_fails :: "unit engine" where
  "spec_fails = ok_engine\<lparr>GenerateSpec := (\<lambda>ctx conn img s. (Inl boom, s))\<rparr>"

definition create_fails :: "unit engine" where
  "create_fails = ok_engine\<lparr>NewContainer := (\<lambda>conn ctx containerID opts s. (Inl boom, s))\<rparr>"

definition newtask_fails :: "unit engine" where
  "newtask_fails = ok_engine\<lparr>NewTask := (\<lambda>container ctx s. (Inl boom, s))\<rparr>"

definition start_fails :: "unit engine" where
  "start_fails = ok_engine\<lparr>Start := (\<lambda>tsk ctx s. (Some boom, s))\<rparr>"

definition task_gone :: "unit engine" where
  "task_gone = ok_engine\<lparr>Task := (\<lambda>container ctx s. (Inl gone, s))\<rparr>"

definition task_marked :: "unit engine" where
  "task_marked = ok_engine\<lparr>Task := (\<lambda>container ctx s. (Inl marked, s))\<rparr>"

definition task_broken :: "unit engine" where
  "task_broken = ok_engine\<lparr>Task := (\<lambda>container ctx s. (Inl boom, s))\<rparr>"

definition delete_fails :: "unit engine" where
  "delete_fails =
     ok_engine\<lparr>Task := (\<lambda>container ctx s. (Inl gone, s)),
               Container_Delete := (\<lambda>container ctx s. (Some boom, s))\<rparr>"

definition list_fails :: "unit engine" where
  "list_fails = ok_engine\<lparr>Namespaces_List := (\<lambda>conn ctx s. (Inl boom, s))\<rparr>"

definition get_fails :: "unit engine" where
  "get_fails = ok_engine\<lparr>Tasks_Get := (\<lambda>conn ctx containerID s. (Inl gone, s))\<rparr>"

text \<open>An engine whose task service answers, without error, with a reply that has no process.\<close>

definition no_process :: "unit engine" where
  "no_process = ok_engine\<lparr>Tasks_Get := (\<lambda>conn ctx containerID s. (Inr \<lparr>Process = None\<rparr>, s))\<rparr>"

text \<open>An engine that reports one namespace twice.\<close>

definition lists_twice :: "unit engine" where
  "lists_twice =
     ok_engine\<lparr>Namespaces_List :=
       (\<lambda>conn ctx s. (Inr [\<lparr>Name = ''edge''\<rparr>, \<lparr>Name = ''default''\<rparr>, \<lparr>Name = ''edge''\<rparr>], s))\<rparr>"

text \<open>A state reached after one operation has failed, and one after a container was created.\<close>

definition after_failed_start :: "unit world" where
  "after_failed_start =
     perform_all newtask_fails test_externals [OpGetContainers ''edge'', OpStartContainer c1_handle]
       (initial Background 0 ''/run/containerd/containerd.sock'' ())"

definition after_create :: "unit world" where
  "after_create =
     perform_all ok_engine test_externals [OpCreateContainer edge_pod c1]
       (initial Background 0 ''/run/containerd/containerd.sock'' ())"

subsection \<open>Vocabulary for the proofs\<close>

text \<open>
  The context that \<^verbatim>\<open>getContext\<close> derives when it is given the number \<open>k\<close>, the
  connection a dial numbered \<open>k\<close> gives, and the state after an operation that left the
  engine in state \<open>s\<close>, made \<open>n\<close> objects, called \<^verbatim>\<open>resetConnection\<close> or not, and
  appended \<open>evs\<close> to the trace.
\<close>

definition derived :: "'e world \<Rightarrow> nat \<Rightarrow> ctx" where
  "derived w k =
     (if timeout (self w) > 0 then WithTimeout (context_c (self w)) (timeout (self w)) k
      else WithCancel (context_c (self w)) k)"

definition dialled :: "'e world \<Rightarrow> string \<Rightarrow> nat \<Rightarrow> connection" where
  "dialled w namespace k = \<lparr>conn_id = k, conn_address = address (self w), conn_namespace = namespace\<rparr>"

definition after :: "'e world \<Rightarrow> 'e \<Rightarrow> nat \<Rightarrow> bool \<Rightarrow> event list \<Rightarrow> 'e world" where
  "after w s n reset evs =
     w\<lparr>self := (if reset then (self w)\<lparr>client := None\<rparr> else self w),
       engine_state := s, next_id := next_id w + n, trace := trace w @ evs\<rparr>"

text \<open>
  What every operation does to the state: it appends to the trace, makes at least one
  object, leaves an empty cache empty and the other fields alone, opens with the
  derivation of its context and closes with its cancellation, dials only connections
  numbered from the counter on, and leaves every connection it called the engine on
  numbered below the counter.
\<close>

definition summary :: "'e world \<Rightarrow> 'e world \<Rightarrow> bool" where
  "summary w w' =
     (trace w' = trace w @ emitted w w' \<and> next_id w < next_id w'
      \<and> (client (self w) = None \<longrightarrow> client (self w') = None)
      \<and> context_c (self w') = context_c (self w) \<and> timeout (self w') = timeout (self w)
      \<and> address (self w') = address (self w)
      \<and> emitted w w' \<noteq> []
      \<and> hd (emitted w w') = DeriveContext (derived w (next_id w))
      \<and> last (emitted w w') = CancelContext (derived w (next_id w))
      \<and> count_list (emitted w w') (DeriveContext (derived w (next_id w))) = 1
      \<and> count_list (emitted w w') (CancelContext (derived w (next_id w))) = 1
      \<and> list_all (\<lambda>c. next_id w \<le> conn_id c) (dials (emitted w w'))
      \<and> list_all (\<lambda>c. conn_id c < next_id w') (connections (emitted w w')))"

text \<open>A state with an empty cache in which every connection traced was numbered before.\<close>

definition tidy :: "'e world \<Rightarrow> bool" where
  "tidy w = (client (self w) = None \<and> list_all (\<lambda>c. conn_id c < next_id w) (connections (trace w)))"

section \<open>Properties\<close>

subsection \<open>What the building blocks do\<close>

lemma derived_simps [simp]:
  "derived (w\<lparr>trace := t\<rparr>) k = derived w k"
  "derived (w\<lparr>engine_state := s\<rparr>) k = derived w k"
  "derived (w\<lparr>next_id := n\<rparr>) k = derived w k"
  "derived (w\<lparr>self := (self w)\<lparr>client := c\<rparr>\<rparr>) k = derived w k"
  by (simp_all add: derived_def)

lemma derived_inj [simp]: "(derived w k = derived w k') = (k = k')"
  by (simp add: derived_def)

lemma getContext_run:
  "getContext w =
     (derived w (next_id w),
      w\<lparr>next_id := Suc (next_id w), trace := trace w @ [DeriveContext (derived w (next_id w))]\<rparr>)"
  by (simp add: getContext_def derived_def emit_def Let_def)

lemma op_context_derived: "op_context w = derived w (next_id w)"
  by (simp add: op_context_def getContext_run)

lemma case_map_sum [simp]:
  "(case map_sum f g r of Inl a \<Rightarrow> P a | Inr b \<Rightarrow> Q b) = (case r of Inl a \<Rightarrow> P (f a) | Inr b \<Rightarrow> Q (g b))"
  by (cases r) simp_all

lemma invoke_with_run:
  "invoke_with handle f ev w =
     (map_sum id handle (fst (f (engine_state w))),
      w\<lparr>engine_state := snd (f (engine_state w)),
        trace := trace w @ [ev (map_sum id handle (fst (f (engine_state w))))]\<rparr>)"
  by (simp add: invoke_with_def invoke_def case_prod_beta)

lemmas op_defs = with_context_def getContext_run cancel_def emit_def invoke_def invoke_with_run
  getConnection_def resetConnection_def Wrap_def Wrapf_def Let_def dialled_def after_def

lemma getNamespaces_loop_filter:
  "getNamespaces_loop nss acc = acc @ filter (\<lambda>n. n \<noteq> ''default'') (map Name nss)"
  by (induction nss arbitrary: acc) auto

lemma count_list_filter:
  "count_list (filter P xs) n = (if P n then count_list xs n else 0)"
  by (induction xs) auto

lemma connections_append [simp]: "connections (xs @ ys) = connections xs @ connections ys"
  by (simp add: connections_def map_filter_def)

lemma connections_Cons [simp]:
  "connections (ev # evs) = (case event_conn ev of None \<Rightarrow> connections evs | Some c \<Rightarrow> c # connections evs)"
  by (simp add: connections_def map_filter_simps split: option.split)

lemma connections_Nil [simp]: "connections [] = []"
  by (simp add: connections_def map_filter_def)

lemma dials_append [simp]: "dials (xs @ ys) = dials xs @ dials ys"
  by (simp add: dials_def map_filter_def)

lemma dials_Cons [simp]:
  "dials (ev # evs) = (case dial_conn ev of None \<Rightarrow> dials evs | Some c \<Rightarrow> c # dials evs)"
  by (simp add: dials_def map_filter_simps split: option.split)

lemma dials_Nil [simp]: "dials [] = []"
  by (simp add: dials_def map_filter_def)

lemma handle_sel [simp]:
  "container_client (container_on conn containerID) = conn"
  "container_ID (container_on conn containerID) = containerID"
  "image_client (image_on conn answer) = conn"
  "image_Name (image_on conn answer) = fst answer"
  "image_Digest (image_on conn answer) = snd answer"
  "task_client (task_on conn pid) = conn"
  "task_Pid (task_on conn pid) = pid"
  by (simp_all add: container_on_def image_on_def task_on_def)

lemma observe_sel [simp]:
  "trace (observe container w) = trace w"
  "self (observe container w) = self w"
  "engine_state (observe container w) = engine_state w"
  "next_id (observe container w) = max (next_id w) (Suc (conn_id (container_client container)))"
  "emitted w (observe container w') = emitted w w'"
  by (simp_all add: observe_def emitted_def)

lemma emitted_after [simp]: "emitted w (after w s k reset evs) = evs"
  by (simp add: emitted_def after_def)

lemma after_sel [simp]:
  "trace (after w s k reset evs) = trace w @ evs"
  "next_id (after w s k reset evs) = next_id w + k"
  "engine_state (after w s k reset evs) = s"
  "client (self (after w s k reset evs)) = (if reset then None else client (self w))"
  "context_c (self (after w s k reset evs)) = context_c (self w)"
  "timeout (self (after w s k reset evs)) = timeout (self w)"
  "address (self (after w s k reset evs)) = address (self w)"
  by (simp_all add: after_def)

subsection \<open>Every operation, path by path\<close>

text \<open>
  Each operation written out as the engine's answers decide it: the result, and the state
  with the events of that path.
\<close>

lemma getConnection_run:
  "getConnection E namespace w =
     (case New E (address (self w)) namespace (engine_state w) of
        (Some e, s1) \<Rightarrow>
          (Inl (WithMessage ''Unable to create connection to containerd'' (Cause e)),
           after w s1 1 False [EvNew (dialled w namespace (next_id w)) (Some e)])
      | (None, s1) \<Rightarrow>
          (Inr (dialled w namespace (next_id w)),
           after w s1 1 False [EvNew (dialled w namespace (next_id w)) None]))"
  by (simp add: op_defs case_prod_beta split: option.split)

lemma GetContainers_run:
  "GetContainers E namespace w =
     (let x = derived w (next_id w); c = dialled w namespace (Suc (next_id w)) in
      case New E (address (self w)) namespace (engine_state w) of
        (Some e, s1) \<Rightarrow>
          (Inl (WithMessage ''Unable to create connection to containerd'' (Cause e)),
           after w s1 2 False [DeriveContext x, EvNew c (Some e), CancelContext x])
      | (None, s1) \<Rightarrow>
          (case Containers E c x s1 of
             (Inl e, s2) \<Rightarrow>
               (Inl (WithMessage ''Error while getting list of containers'' (Cause e)),
                after w s2 2 True
                  [DeriveContext x, EvNew c None, EvContainers c x (Inl e), ResetConnection,
                   CancelContext x])
           | (Inr ids, s2) \<Rightarrow>
               (Inr (map (container_on c) ids),
                after w s2 2 False
                  [DeriveContext x, EvNew c None,
                   EvContainers c x (Inr (map (container_on c) ids)), CancelContext x])))"
  by (simp add: GetContainers_def GetContainers_body_def op_defs case_prod_beta split: sum.split option.split)

lemma ensureImagePulled_run:
  "ensureImagePulled E namespace ref w =
     (let x = derived w (next_id w); c = dialled w namespace (Suc (next_id w)) in
      case New E (address (self w)) namespace (engine_state w) of
        (Some e, s1) \<Rightarrow>
          (Inl (WithMessage ''Unable to create connection to containerd'' (Cause e)),
           after w s1 2 False
             [EnsureImagePulled namespace ref, DeriveContext x, EvNew c (Some e), CancelContext x])
      | (None, s1) \<Rightarrow>
          (case Pull E c x ref s1 of
             (Inl e, s2) \<Rightarrow>
               (Inl (WithMessage (''Error pulling image ['' @ ref @ '']'') (Cause e)),
                after w s2 2 True
                  [EnsureImagePulled namespace ref, DeriveContext x, EvNew c None,
                   EvPull c x ref (Inl e), ResetConnection, CancelContext x])
           | (Inr answer, s2) \<Rightarrow>
               (let img = image_on c answer in
                case Unpack E img x snapshotter s2 of
                  (Some e, s3) \<Rightarrow>
                    (Inl (WithMessage (''Error while unpacking image ['' @ image_Digest img @ '']'')
                            (Cause e)),
                     after w s3 2 True
                       [EnsureImagePulled namespace ref, DeriveContext x, EvNew c None,
                        EvPull c x ref (Inr img), EvUnpack img x snapshotter (Some e),
                        ResetConnection, CancelContext x])
                | (None, s3) \<Rightarrow>
                    (Inr img,
                     after w s3 2 False
                       [EnsureImagePulled namespace ref, DeriveContext x, EvNew c None,
                        EvPull c x ref (Inr img), EvUnpack img x snapshotter None,
                        CancelContext x]))))"
  by (simp add: ensureImagePulled_def ensureImagePulled_body_def op_defs case_prod_beta split: sum.split option.split)

lemma StartContainer_run:
  "StartContainer E container w =
     (let x = derived w (next_id w) in
      case NewTask E container x (engine_state w) of
        (Inl e, s1) \<Rightarrow>
          (Some (WithMessage (''Error while creating task for container ['' @ container_ID container @ '']'') (Cause e)),
           after w s1 1 True [DeriveContext x, EvNewTask container x (Inl e), ResetConnection, CancelContext x])
      | (Inr pid, s1) \<Rightarrow>
          (let t = task_on (container_client container) pid in
           case Start E t x s1 of
             (Some e, s2) \<Rightarrow>
               (Some (WithMessage (''Failed to start task in container%!(EXTRA string='' @ container_ID container @ '')'') (Cause e)),
                after w s2 1 True
                  [DeriveContext x, EvNewTask container x (Inr t), EvStart t x (Some e),
                   ResetConnection, CancelContext x])
           | (None, s2) \<Rightarrow>
               (None,
                after w s2 1 False
                  [DeriveContext x, EvNewTask container x (Inr t), EvStart t x None,
                   CancelContext x])))"
  by (simp add: StartContainer_def StartContainer_body_def op_defs case_prod_beta split: sum.split option.split)

lemma StopContainer_run:
  "StopContainer E container w =
     (let x = derived w (next_id w) in
      case Task E container x (engine_state w) of
        (r, s1) \<Rightarrow>
          (let probe = (case r of
                          Inl e \<Rightarrow> ([EvTask container x (Inl e)], s1)
                        | Inr pid \<Rightarrow>
                            (let t = task_on (container_client container) pid in
                             ([EvTask container x (Inr t),
                               EvTaskDelete t x (fst (Task_Delete E t x s1))],
                              snd (Task_Delete E t x s1))))
           in case Container_Delete E container x (snd probe) of
                (Some e, s3) \<Rightarrow>
                  (Some (WithMessage (''Failed to delete container '' @ container_ID container) (Cause e)),
                   after w s3 1 True
                     (DeriveContext x # fst probe @
                      [EvContainerDelete container x (Some e), ResetConnection, CancelContext x]))
              | (None, s3) \<Rightarrow>
                  (None,
                   after w s3 1 False
                     (DeriveContext x # fst probe @
                      [EvContainerDelete container x None, CancelContext x]))))"
  by (simp add: StopContainer_def StopContainer_body_def op_defs case_prod_beta split: sum.split option.split)

lemma GetNamespaces_run:
  "GetNamespaces E X w =
     (let x = derived w (next_id w); c = dialled w (DefaultNamespace X) (Suc (next_id w)) in
      case New E (address (self w)) (DefaultNamespace X) (engine_state w) of
        (Some e, s1) \<Rightarrow>
          (Inl (WithMessage ''Unable to create connection to containerd'' (Cause e)),
           after w s1 2 False [DeriveContext x, EvNew c (Some e), CancelContext x])
      | (None, s1) \<Rightarrow>
          (case Namespaces_List E c x s1 of
             (Inl e, s2) \<Rightarrow>
               (Inl (Cause e),
                after w s2 2 False
                  [DeriveContext x, EvNew c None, EvNamespacesList c x (Inl e), CancelContext x])
           | (Inr nss, s2) \<Rightarrow>
               (Inr (getNamespaces nss),
                after w s2 2 False
                  [DeriveContext x, EvNew c None, EvNamespacesList c x (Inr nss), CancelContext x])))"
  by (simp add: GetNamespaces_def GetNamespaces_body_def op_defs case_prod_beta split: sum.split option.split)

lemma IsContainerRunning_run:
  "IsContainerRunning E container w =
     (let x = derived w (next_id w) in
      case Task E container x (engine_state w) of
        (Inl e, s1) \<Rightarrow>
          ((False, if docker_marker e then None else Some (Cause e)),
           after w s1 1 False [DeriveContext x, EvTask container x (Inl e), CancelContext x])
      | (Inr pid, s1) \<Rightarrow>
          ((True, None),
           after w s1 1 False
             [DeriveContext x, EvTask container x (Inr (task_on (container_client container) pid)),
              CancelContext x]))"
  by (simp add: IsContainerRunning_def IsContainerRunning_body_def op_defs case_prod_beta split: sum.split option.split)

lemma GetContainerTaskStatus_run:
  "GetContainerTaskStatus E X containerID w =
     (let x = derived w (next_id w); c = dialled w (DefaultNamespace X) (Suc (next_id w)) in
      case New E (address (self w)) (DefaultNamespace X) (engine_state w) of
        (Some e, s1) \<Rightarrow>
          (Inr ''UNKNOWN'', after w s1 2 False [DeriveContext x, EvNew c (Some e), CancelContext x])
      | (None, s1) \<Rightarrow>
          (case Tasks_Get E c x containerID s1 of
             (Inl e, s2) \<Rightarrow>
               (Inr ''UNKNOWN'',
                after w s2 2 False
                  [DeriveContext x, EvNew c None, EvTasksGet c x containerID (Inl e),
                   CancelContext x])
           | (Inr resp, s2) \<Rightarrow>
               ((case Process resp of
                   None \<Rightarrow> Inl NilPointerDereference
                 | Some p \<Rightarrow> Inr (Status_String X (Status p))),
                after w s2 2 False
                  [DeriveContext x, EvNew c None, EvTasksGet c x containerID (Inr resp),
                   CancelContext x])))"
  by (simp add: GetContainerTaskStatus_def GetContainerTaskStatus_body_def op_defs case_prod_beta split: sum.split option.split)

lemma CreateContainer_run:
  "CreateContainer E X pod container w =
     (let ns = GetNamespace pod; ref = Image container;
          x = derived w (next_id w); c = dialled w ns (Suc (next_id w));
          x' = derived w (next_id w + 2); c' = dialled w ns (next_id w + 3);
          p1 = [DeriveContext x, EvNew c None, EnsureImagePulled ns ref, DeriveContext x'];
          unavailable = (\<lambda>e. WithMessage ''Unable to create connection to containerd'' (Cause e))
      in
      case New E (address (self w)) ns (engine_state w) of
        (Some e, s1) \<Rightarrow>
          (Inl (unavailable e), after w s1 2 False [DeriveContext x, EvNew c (Some e), CancelContext x])
      | (None, s1) \<Rightarrow>
      (case New E (address (self w)) ns s1 of
        (Some e, s2) \<Rightarrow>
          (Inl (unavailable e),
           after w s2 4 False (p1 @ [EvNew c' (Some e), CancelContext x', CancelContext x]))
      | (None, s2) \<Rightarrow>
      (case Pull E c' x' ref s2 of
        (Inl e, s3) \<Rightarrow>
          (Inl (WithMessage (''Error pulling image ['' @ ref @ '']'') (Cause e)),
           after w s3 4 True
             (p1 @ [EvNew c' None, EvPull c' x' ref (Inl e), ResetConnection,
                    CancelContext x', CancelContext x]))
      | (Inr answer, s3) \<Rightarrow>
      (let img = image_on c' answer;
           p2 = p1 @ [EvNew c' None, EvPull c' x' ref (Inr img)] in
       case Unpack E img x' snapshotter s3 of
        (Some e, s4) \<Rightarrow>
          (Inl (WithMessage (''Error while unpacking image ['' @ image_Digest img @ '']'') (Cause e)),
           after w s4 4 True
             (p2 @ [EvUnpack img x' snapshotter (Some e), ResetConnection,
                    CancelContext x', CancelContext x]))
      | (None, s4) \<Rightarrow>
      (let p3 = p2 @ [EvUnpack img x' snapshotter None, CancelContext x'] in
       case GenerateSpec E x c img s4 of
        (Inl e, s5) \<Rightarrow>
          (Inl (Cause e),
           after w s5 4 False (p3 @ [EvGenerateSpec x c img (Inl e), CancelContext x]))
      | (Inr spec, s5) \<Rightarrow>
      (let opts = container_opts X pod container spec img;
           p4 = p3 @ [EvGenerateSpec x c img (Inr spec)] in
       case NewContainer E c x (ID container) opts s5 of
        (Inl e, s6) \<Rightarrow>
          (Inl (WithMessage (''Failed to create new container from image '' @ image_Name img)
                  (Cause e)),
           after w s6 4 True
             (p4 @ [EvNewContainer c x (ID container) opts (Inl e), ResetConnection,
                    CancelContext x]))
      | (Inr made, s6) \<Rightarrow>
          (Inr (container_on c made),
           after w s6 4 False
             (p4 @ [EvNewContainer c x (ID container) opts (Inr (container_on c made)),
                    CancelContext x]))))))))"
proof -
  define ns where "ns = GetNamespace pod"
  define ref where "ref = Image container"
  define x where "x = derived w (next_id w)"
  define c where "c = dialled w ns (Suc (next_id w))"
  define x' where "x' = derived w (next_id w + 2)"
  define c' where "c' = dialled w ns (next_id w + 3)"
  obtain r1 s1 where n1: "New E (address (self w)) ns (engine_state w) = (r1, s1)"
    by force
  obtain r2 s2 where n2: "New E (address (self w)) ns s1 = (r2, s2)"
    by force
  obtain r3 s3 where n3: "Pull E c' x' ref s2 = (r3, s3)"
    by force
  define img where "img = image_on c' (projr r3)"
  obtain r4 s4 where n4: "Unpack E img x' snapshotter s3 = (r4, s4)"
    by force
  obtain r5 s5 where n5: "GenerateSpec E x c img s4 = (r5, s5)"
    by force
  obtain r6 s6 where
    n6: "NewContainer E c x (ID container) (container_opts X pod container (projr r5) img) s5
           = (r6, s6)"
    by force
  note defs = ns_def [symmetric] ref_def [symmetric] x_def [symmetric] c_def [symmetric]
    x'_def [symmetric] c'_def [symmetric]
  show ?thesis
    using n1 n2 n3 n4 n5 n6
    by (cases r1; cases r2; cases r3; cases r4; cases r5; cases r6;
        simp add: CreateContainer_def CreateContainer_body_def with_context_def getContext_run
          getConnection_run ensureImagePulled_run cancel_def emit_def invoke_def invoke_with_run
          Let_def resetConnection_def Wrapf_def after_def dialled_def x_def c_def x'_def c'_def
          ns_def ref_def img_def eval_nat_numeral)
qed

lemma count_list_distinct: "distinct xs \<Longrightarrow> n \<in> set xs \<Longrightarrow> count_list xs n = 1"
  by (induction xs) (auto simp: count_list_0_iff)

lemmas run_simps = Let_def after_def dialled_def emitted_def op_context_derived count_events_def

lemmas eval_defs = w0_def initial_def NewContainerdClient_def ok_engine_def test_externals_def
  edge_pod_def c1_def c1_handle_def boom_def gone_def marked_def GetNamespace_def snapshotter_def
  container_opts_def derived_def down_engine_def pull_fails_def unpack_fails_def spec_fails_def
  create_fails_def newtask_fails_def start_fails_def task_gone_def task_marked_def task_broken_def
  delete_fails_def list_fails_def get_fails_def no_process_def lists_twice_def getNamespaces_def
  container_on_def image_on_def task_on_def status_name_def

lemmas eval_simps = run_simps eval_defs

subsection \<open>What holds of every operation and of every run\<close>

lemma summary_GetContainers: "summary w (snd (GetContainers E namespace w))"
  by (simp add: summary_def GetContainers_run Let_def case_prod_beta dialled_def split: sum.split option.split)

lemma summary_StartContainer: "summary w (observe container (snd (StartContainer E container w)))"
  by (simp add: summary_def StartContainer_run Let_def case_prod_beta dialled_def less_Suc_eq_le
        split: sum.split option.split)

lemma summary_StopContainer: "summary w (observe container (snd (StopContainer E container w)))"
  by (simp add: summary_def StopContainer_run Let_def case_prod_beta dialled_def less_Suc_eq_le
        split: sum.split option.split)

lemma summary_GetNamespaces: "summary w (snd (GetNamespaces E X w))"
  by (simp add: summary_def GetNamespaces_run Let_def case_prod_beta dialled_def split: sum.split option.split)

lemma summary_IsContainerRunning: "summary w (observe container (snd (IsContainerRunning E container w)))"
  by (simp add: summary_def IsContainerRunning_run Let_def case_prod_beta dialled_def less_Suc_eq_le
        split: sum.split option.split)

lemma summary_GetContainerTaskStatus: "summary w (snd (GetContainerTaskStatus E X containerID w))"
  by (simp add: summary_def GetContainerTaskStatus_run Let_def case_prod_beta dialled_def split: sum.split option.split)

lemma summary_CreateContainer: "summary w (snd (CreateContainer E X pod container w))"
  by (simp add: summary_def CreateContainer_run Let_def case_prod_beta dialled_def split: sum.split option.split)

lemma summary_perform: "summary w (perform E X op w)"
  by (cases op)
    (simp_all add: summary_GetContainers summary_CreateContainer summary_StartContainer
       summary_StopContainer summary_GetNamespaces summary_IsContainerRunning
       summary_GetContainerTaskStatus)

text \<open>The operations that take no handle call the engine only on connections they dialled.\<close>

lemma own_GetContainers:
  "list_all (\<lambda>c. next_id w \<le> conn_id c) (connections (emitted w (snd (GetContainers E namespace w))))"
  by (simp add: GetContainers_run Let_def case_prod_beta dialled_def split: sum.split option.split)

lemma own_GetNamespaces:
  "list_all (\<lambda>c. next_id w \<le> conn_id c) (connections (emitted w (snd (GetNamespaces E X w))))"
  by (simp add: GetNamespaces_run Let_def case_prod_beta dialled_def split: sum.split option.split)

lemma own_GetContainerTaskStatus:
  "list_all (\<lambda>c. next_id w \<le> conn_id c)
     (connections (emitted w (snd (GetContainerTaskStatus E X containerID w))))"
  by (simp add: GetContainerTaskStatus_run Let_def case_prod_beta dialled_def split: sum.split option.split)

lemma own_CreateContainer:
  "list_all (\<lambda>c. next_id w \<le> conn_id c)
     (connections (emitted w (snd (CreateContainer E X pod container w))))"
  by (simp add: CreateContainer_run Let_def case_prod_beta dialled_def split: sum.split option.split)

lemma own_perform:
  "handle_of op = None
   \<Longrightarrow> list_all (\<lambda>c. next_id w \<le> conn_id c) (connections (emitted w (perform E X op w)))"
  by (cases op)
    (simp_all add: own_GetContainers own_GetNamespaces own_GetContainerTaskStatus own_CreateContainer)

text \<open>The operations that take a handle call the engine on the connection the handle holds.\<close>

lemma held_StartContainer:
  "list_all (\<lambda>c. c = container_client container)
     (connections (emitted w (snd (StartContainer E container w))))
   \<and> container_client container \<in> set (connections (emitted w (snd (StartContainer E container w))))"
  by (simp add: StartContainer_run Let_def case_prod_beta split: sum.split option.split)

lemma held_StopContainer:
  "list_all (\<lambda>c. c = container_client container)
     (connections (emitted w (snd (StopContainer E container w))))
   \<and> container_client container \<in> set (connections (emitted w (snd (StopContainer E container w))))"
  by (simp add: StopContainer_run Let_def case_prod_beta split: sum.split option.split)

lemma held_IsContainerRunning:
  "list_all (\<lambda>c. c = container_client container)
     (connections (emitted w (snd (IsContainerRunning E container w))))
   \<and> container_client container \<in> set (connections (emitted w (snd (IsContainerRunning E container w))))"
  by (simp add: IsContainerRunning_run Let_def case_prod_beta split: sum.split option.split)

lemma held_perform:
  "handle_of op = Some container
   \<Longrightarrow> list_all (\<lambda>c. c = container_client container) (connections (emitted w (perform E X op w)))
       \<and> container_client container \<in> set (connections (emitted w (perform E X op w)))"
  by (cases op) (simp_all add: held_StartContainer held_StopContainer held_IsContainerRunning)

lemma tidy_initial: "tidy (initial context' timeout' address' s)"
  by (simp add: tidy_def initial_def NewContainerdClient_def)

lemma tidy_step:
  assumes "tidy w" and "summary w w'"
  shows "tidy w'"
proof -
  from assms have tr: "trace w' = trace w @ emitted w w'" and lt: "next_id w < next_id w'"
    and new: "list_all (\<lambda>c. conn_id c < next_id w') (connections (emitted w w'))"
    and old: "list_all (\<lambda>c. conn_id c < next_id w) (connections (trace w))"
    and cl: "client (self w') = None"
    by (simp_all add: tidy_def summary_def)
  have "list_all (\<lambda>c. conn_id c < next_id w') (connections (trace w))"
    using old lt by (auto simp: list_all_iff)
  then show ?thesis
    using new cl tr by (simp add: tidy_def)
qed

lemma tidy_perform_all: "tidy w \<Longrightarrow> tidy (perform_all E X ops w)"
  by (induction ops arbitrary: w) (auto intro: tidy_step summary_perform)

lemma tidy_reached: "tidy (perform_all E X ops (initial context' timeout' address' s))"
  by (simp add: tidy_perform_all tidy_initial)

lemma dial_in_dials: "EvNew conn a \<in> set evs \<Longrightarrow> conn \<in> set (dials evs)"
  by (induction evs) (auto split: option.splits)

lemma dial_not_traced:
  assumes "tidy w" and "summary w w'" and "c \<in> set (dials (emitted w w'))"
  shows "c \<notin> set (connections (trace w))"
proof
  assume "c \<in> set (connections (trace w))"
  with assms(1) have "conn_id c < next_id w"
    by (auto simp: tidy_def list_all_iff)
  moreover from assms(2,3) have "next_id w \<le> conn_id c"
    by (auto simp: summary_def list_all_iff)
  ultimately show False by simp
qed

lemma own_not_traced:
  assumes "tidy w" and "handle_of op = None"
    and "c \<in> set (connections (emitted w (perform E X op w)))"
  shows "c \<notin> set (connections (trace w))"
proof
  assume "c \<in> set (connections (trace w))"
  with assms(1) have "conn_id c < next_id w"
    by (auto simp: tidy_def list_all_iff)
  moreover from own_perform [OF assms(2)] assms(3) have "next_id w \<le> conn_id c"
    by (auto simp: list_all_iff)
  ultimately show False by simp
qed

lemma dials_GetContainers: "count_events is_dial (emitted w (snd (GetContainers E namespace w))) = 1"
  by (simp add: GetContainers_run Let_def count_events_def case_prod_beta split: sum.split option.split)

lemma dials_GetNamespaces: "count_events is_dial (emitted w (snd (GetNamespaces E X w))) = 1"
  by (simp add: GetNamespaces_run Let_def count_events_def case_prod_beta split: sum.split option.split)

lemma dials_GetContainerTaskStatus:
  "count_events is_dial (emitted w (snd (GetContainerTaskStatus E X containerID w))) = 1"
  by (simp add: GetContainerTaskStatus_run Let_def count_events_def case_prod_beta split: sum.split option.split)

lemma dials_CreateContainer:
  "1 \<le> count_events is_dial (emitted w (snd (CreateContainer E X pod container w)))
   \<and> count_events is_dial (emitted w (snd (CreateContainer E X pod container w))) \<le> 2"
  by (simp add: CreateContainer_run Let_def count_events_def case_prod_beta split: sum.split option.split)

lemma dials_StartContainer: "count_events is_dial (emitted w (snd (StartContainer E container w))) = 0"
  by (simp add: StartContainer_run Let_def count_events_def case_prod_beta split: sum.split option.split)

lemma dials_StopContainer: "count_events is_dial (emitted w (snd (StopContainer E container w))) = 0"
  by (simp add: StopContainer_run Let_def count_events_def case_prod_beta split: sum.split option.split)

lemma dials_IsContainerRunning:
  "count_events is_dial (emitted w (snd (IsContainerRunning E container w))) = 0"
  by (simp add: IsContainerRunning_run Let_def count_events_def case_prod_beta split: sum.split option.split)

section \<open>The properties of the specification, one by one\<close>

subsection \<open>C1: failures of the engine, wrapped and followed by a reset\<close>

text \<open>
  C1 says that every failure of an engine call other than a dial or a not-found probe
  (pull, unpack, spec generation, create, start, delete, list) makes the operation
  return an error wrapped with context naming its subject, after it has called
  \<^verbatim>\<open>resetConnection\<close>. The code does so where the pull, the unpack, the creation
  of the container, the creation and the start of the task, the deletion of the container
  and the listing of containers fail. It does not where \<^verbatim>\<open>GenerateSpec\<close> fails in
  \<^verbatim>\<open>CreateContainer\<close> and where the namespace listing fails in \<^verbatim>\<open>GetNamespaces\<close>:
  there the engine's error comes back as it is, and \<^verbatim>\<open>resetConnection\<close> is not
  called. The theorem runs both against an engine on which exactly that call fails, and,
  for comparison, the two sibling paths (creation of the container, listing of
  containers) that do wrap.
\<close>

theorem spec_and_list_failures_returned_bare:
  "fst (CreateContainer spec_fails test_externals edge_pod c1 w0) = Inl (Cause boom)
   \<and> ResetConnection \<notin> set (emitted w0 (snd (CreateContainer spec_fails test_externals edge_pod c1 w0)))
   \<and> fst (GetNamespaces list_fails test_externals w0) = Inl (Cause boom)
   \<and> ResetConnection \<notin> set (emitted w0 (snd (GetNamespaces list_fails test_externals w0)))
   \<and> Error (Cause boom) = ''boom''
   \<and> fst (CreateContainer create_fails test_externals edge_pod c1 w0)
       = Inl (WithMessage ''Failed to create new container from image reg/app:1'' (Cause boom))
   \<and> ResetConnection \<in> set (emitted w0 (snd (CreateContainer create_fails test_externals edge_pod c1 w0)))
   \<and> fst (GetContainers (ok_engine\<lparr>Containers := (\<lambda>conn ctx s. (Inl boom, s))\<rparr>) ''edge'' w0)
       = Inl (WithMessage ''Error while getting list of containers'' (Cause boom))"
  by (simp add: CreateContainer_run GetNamespaces_run GetContainers_run eval_simps)

subsection \<open>C2: the image is pulled before a container is created\<close>

text \<open>
  C2, as amended: \<^verbatim>\<open>CreateContainer\<close> begins with a dial. When that dial fails it
  returns the connection error and does not enter \<^verbatim>\<open>ensureImagePulled\<close> at all; when
  it succeeds it enters \<^verbatim>\<open>ensureImagePulled\<close> exactly once. Whenever the pull or the
  unpack fails, it returns an error and never calls the engine's \<^verbatim>\<open>NewContainer\<close>.
\<close>

theorem CreateContainer_pulls_before_creating:
  assumes run: "CreateContainer E X pod container w = (r, w')"
  shows "(\<forall>conn e. take 2 (emitted w w') = [DeriveContext (op_context w), EvNew conn (Some e)]
            \<longrightarrow> count_events is_ensure (emitted w w') = 0
              \<and> r = Inl (WithMessage ''Unable to create connection to containerd'' (Cause e)))
       \<and> (\<forall>conn. take 2 (emitted w w') = [DeriveContext (op_context w), EvNew conn None]
            \<longrightarrow> count_events is_ensure (emitted w w') = 1)
       \<and> (\<exists>conn a. take 2 (emitted w w') = [DeriveContext (op_context w), EvNew conn a])
       \<and> (list_ex pull_failed (emitted w w') \<or> list_ex unpack_failed (emitted w w')
            \<longrightarrow> isl r \<and> count_events is_create (emitted w w') = 0)"
  using run
  by (auto simp: CreateContainer_run run_simps split: prod.splits sum.splits option.splits)

text \<open>The three cases, on engines where the dial, the pull and the unpack fail.\<close>

theorem CreateContainer_pulls_before_creating_witness:
  "count_events is_ensure (emitted w0 (snd (CreateContainer down_engine test_externals edge_pod c1 w0))) = 0
   \<and> isl (fst (CreateContainer down_engine test_externals edge_pod c1 w0))
   \<and> count_events is_ensure (emitted w0 (snd (CreateContainer pull_fails test_externals edge_pod c1 w0))) = 1
   \<and> isl (fst (CreateContainer pull_fails test_externals edge_pod c1 w0))
   \<and> count_events is_create (emitted w0 (snd (CreateContainer pull_fails test_externals edge_pod c1 w0))) = 0
   \<and> isl (fst (CreateContainer unpack_fails test_externals edge_pod c1 w0))
   \<and> count_events is_create (emitted w0 (snd (CreateContainer unpack_fails test_externals edge_pod c1 w0))) = 0"
proof -
  let ?c = "\<lparr>conn_id = 1, conn_address = ''/run/containerd/containerd.sock'',
             conn_namespace = ''edge''\<rparr>"
  have "take 2 (emitted w0 (snd (CreateContainer down_engine test_externals edge_pod c1 w0)))
          = [DeriveContext (op_context w0), EvNew ?c (Some boom)]"
    by (simp add: CreateContainer_run eval_simps)
  with CreateContainer_pulls_before_creating [OF surjective_pairing]
  have "count_events is_ensure (emitted w0 (snd (CreateContainer down_engine test_externals edge_pod c1 w0))) = 0
     \<and> fst (CreateContainer down_engine test_externals edge_pod c1 w0)
         = Inl (WithMessage ''Unable to create connection to containerd'' (Cause boom))"
    by blast
  then have down: "count_events is_ensure (emitted w0 (snd (CreateContainer down_engine test_externals edge_pod c1 w0))) = 0
     \<and> isl (fst (CreateContainer down_engine test_externals edge_pod c1 w0))"
    by simp
  have "take 2 (emitted w0 (snd (CreateContainer pull_fails test_externals edge_pod c1 w0)))
          = [DeriveContext (op_context w0), EvNew ?c None]"
    by (simp add: CreateContainer_run eval_simps)
  with CreateContainer_pulls_before_creating [OF surjective_pairing]
  have once: "count_events is_ensure (emitted w0 (snd (CreateContainer pull_fails test_externals edge_pod c1 w0))) = 1"
    by blast
  have "list_ex pull_failed (emitted w0 (snd (CreateContainer pull_fails test_externals edge_pod c1 w0)))"
    by (simp add: CreateContainer_run eval_simps)
  with CreateContainer_pulls_before_creating [OF surjective_pairing]
  have pull: "isl (fst (CreateContainer pull_fails test_externals edge_pod c1 w0))
     \<and> count_events is_create (emitted w0 (snd (CreateContainer pull_fails test_externals edge_pod c1 w0))) = 0"
    by blast
  have "list_ex unpack_failed (emitted w0 (snd (CreateContainer unpack_fails test_externals edge_pod c1 w0)))"
    by (simp add: CreateContainer_run eval_simps)
  with CreateContainer_pulls_before_creating [OF surjective_pairing]
  have unpack: "isl (fst (CreateContainer unpack_fails test_externals edge_pod c1 w0))
     \<and> count_events is_create (emitted w0 (snd (CreateContainer unpack_fails test_externals edge_pod c1 w0))) = 0"
    by blast
  from down once pull unpack show ?thesis
    by simp
qed

text \<open>
  C2 as stated (\<^verbatim>\<open>ensureImagePulled\<close> exactly once per call) fails when the engine
  cannot be dialled: \<^verbatim>\<open>ensureImagePulled\<close> is not entered.
\<close>

theorem CreateContainer_without_pull_counterexample:
  "count_events is_ensure (emitted w0 (snd (CreateContainer down_engine test_externals edge_pod c1 w0))) = 0"
  by (simp add: CreateContainer_run eval_simps)

subsection \<open>C3: the task status, or UNKNOWN\<close>

text \<open>
  C3 says that \<^verbatim>\<open>GetContainerTaskStatus\<close> never returns an error and never panics: it
  returns \<open>''UNKNOWN''\<close> when the dial fails, \<open>''UNKNOWN''\<close> when the task lookup fails, and the
  name of the found task's process status otherwise. The code does return
  \<open>''UNKNOWN''\<close> in the first two cases and the name of the status when the reply carries a
  process. When the lookup succeeds with a reply that carries no process, line 244 reads
  the status through a nil pointer and the call panics (its context is still
  cancelled). The theorem runs the four cases.
\<close>

theorem status_of_reply_without_process_panics:
  "fst (GetContainerTaskStatus no_process test_externals ''c1'' w0) = Inl NilPointerDereference
   \<and> last (emitted w0 (snd (GetContainerTaskStatus no_process test_externals ''c1'' w0)))
       = CancelContext (op_context w0)
   \<and> fst (GetContainerTaskStatus down_engine test_externals ''c1'' w0) = Inr ''UNKNOWN''
   \<and> fst (GetContainerTaskStatus get_fails test_externals ''c1'' w0) = Inr ''UNKNOWN''
   \<and> fst (GetContainerTaskStatus ok_engine test_externals ''c1'' w0) = Inr ''RUNNING''"
  by (simp add: GetContainerTaskStatus_run eval_simps)

subsection \<open>C4: is the container running\<close>

text \<open>
  C4 says that \<^verbatim>\<open>IsContainerRunning\<close> returns \<open>(false, nil)\<close> when the task lookup fails
  with a not-found error, \<open>(true, nil)\<close> when a task is found, and \<open>false\<close> with the
  lookup's error for any other failure. The code asks docker's \<^verbatim>\<open>errdefs.IsNotFound\<close>
  whether the error is a not-found error, and the engine's not-found error does not
  carry docker's marker: for a container without a task the code returns \<open>false\<close>
  together with the error. The theorem runs that case, the two cases that do as the claim
  says, and the lookup of a stand-in that answers with an error carrying docker's marker,
  the only one for which the code returns \<open>(false, nil)\<close>.
\<close>

theorem IsContainerRunning_misses_engine_not_found:
  "not_found gone
   \<and> fst (IsContainerRunning task_gone c1_handle w0) = (False, Some (Cause gone))
   \<and> fst (IsContainerRunning ok_engine c1_handle w0) = (True, None)
   \<and> fst (IsContainerRunning task_broken c1_handle w0) = (False, Some (Cause boom))
   \<and> fst (IsContainerRunning task_marked c1_handle w0) = (False, None)"
  by (simp add: IsContainerRunning_run eval_simps)

subsection \<open>C5: stopping a container\<close>



subsection \<open>C6: the namespaces, without the default one\<close>

text \<open>
  C6, as amended: whatever list of namespaces the engine reports, \<^verbatim>\<open>GetNamespaces\<close>
  returns the names of that list without the entries named \<open>''default''\<close>: the literal
  \<open>''default''\<close> is never in the result, every other name is in the result as many times as
  the engine reported it (exactly once when the engine reports no name twice), and the
  order is the engine's. Here the engine's report is the answer of its listing call, made
  on the connection the operation dialled and with the operation's context.
\<close>

theorem GetNamespaces_hides_default:
  assumes dial: "New E (address (self w)) (DefaultNamespace X) (engine_state w) = (None, s1)"
    and list: "Namespaces_List E
                 \<lparr>conn_id = Suc (next_id w), conn_address = address (self w),
                    conn_namespace = DefaultNamespace X\<rparr>
                 (op_context w) s1 = (Inr reported, s2)"
  shows "fst (GetNamespaces E X w) = Inr (getNamespaces reported)
       \<and> getNamespaces reported = filter (\<lambda>n. n \<noteq> ''default'') (map Name reported)
       \<and> ''default'' \<notin> set (getNamespaces reported)
       \<and> (\<forall>n. n \<noteq> ''default''
            \<longrightarrow> count_list (getNamespaces reported) n = count_list (map Name reported) n)
       \<and> (distinct (map Name reported)
            \<longrightarrow> (\<forall>n. n \<in> set (map Name reported) \<and> n \<noteq> ''default''
                   \<longrightarrow> count_list (getNamespaces reported) n = 1))
       \<and> subseq (getNamespaces reported) (map Name reported)"
proof -
  have flt: "getNamespaces reported = filter (\<lambda>n. n \<noteq> ''default'') (map Name reported)"
    by (simp add: getNamespaces_def getNamespaces_loop_filter)
  have res: "fst (GetNamespaces E X w) = Inr (getNamespaces reported)"
    using dial list by (simp add: GetNamespaces_run run_simps)
  have once: "distinct (map Name reported)
            \<longrightarrow> (\<forall>n. n \<in> set (map Name reported) \<and> n \<noteq> ''default''
                   \<longrightarrow> count_list (getNamespaces reported) n = 1)"
    by (simp add: flt count_list_filter count_list_distinct)
  show ?thesis
    using res once by (simp add: flt count_list_filter)
qed

text \<open>On an engine that reports default, staging, prod, and on one that reports a name twice.\<close>

theorem GetNamespaces_hides_default_witness:
  "fst (GetNamespaces ok_engine test_externals w0) = Inr [''staging'', ''prod'']
   \<and> count_list [''staging'', ''prod''] ''prod'' = 1
   \<and> ''default'' \<notin> set [''staging'', ''prod'']
   \<and> fst (GetNamespaces lists_twice test_externals w0) = Inr [''edge'', ''edge'']"
proof -
  let ?reported = "[\<lparr>Name = ''default''\<rparr>, \<lparr>Name = ''staging''\<rparr>, \<lparr>Name = ''prod''\<rparr>]"
  let ?twice = "[\<lparr>Name = ''edge''\<rparr>, \<lparr>Name = ''default''\<rparr>, \<lparr>Name = ''edge''\<rparr>]"
  have dial: "New ok_engine (address (self w0)) (DefaultNamespace test_externals) (engine_state w0)
                = (None, ())"
    by (simp add: eval_simps)
  have list: "Namespaces_List ok_engine
                 \<lparr>conn_id = Suc (next_id w0), conn_address = address (self w0),
                    conn_namespace = DefaultNamespace test_externals\<rparr>
                 (op_context w0) () = (Inr ?reported, ())"
    by (simp add: eval_simps)
  note hidden = GetNamespaces_hides_default [OF dial list]
  from hidden have result: "fst (GetNamespaces ok_engine test_externals w0) = Inr (getNamespaces ?reported)"
    by (elim conjE)
  from hidden have absent: "''default'' \<notin> set (getNamespaces ?reported)"
    by (elim conjE)
  from hidden
  have "distinct (map Name ?reported)
          \<longrightarrow> (\<forall>n. n \<in> set (map Name ?reported) \<and> n \<noteq> ''default''
                 \<longrightarrow> count_list (getNamespaces ?reported) n = 1)"
    by (elim conjE)
  moreover have "distinct (map Name ?reported)"
    by simp
  ultimately
  have "\<forall>n. n \<in> set (map Name ?reported) \<and> n \<noteq> ''default''
               \<longrightarrow> count_list (getNamespaces ?reported) n = 1"
    by (rule mp)
  then have "''prod'' \<in> set (map Name ?reported) \<and> ''prod'' \<noteq> ''default''
               \<longrightarrow> count_list (getNamespaces ?reported) ''prod'' = 1"
    by (rule spec)
  moreover have "''prod'' \<in> set (map Name ?reported) \<and> ''prod'' \<noteq> ''default''"
    by simp
  ultimately have once: "count_list (getNamespaces ?reported) ''prod'' = 1"
    by (rule mp)
  have dial2: "New lists_twice (address (self w0)) (DefaultNamespace test_externals) (engine_state w0)
                = (None, ())"
    by (simp add: eval_simps)
  have list2: "Namespaces_List lists_twice
                 \<lparr>conn_id = Suc (next_id w0), conn_address = address (self w0),
                    conn_namespace = DefaultNamespace test_externals\<rparr>
                 (op_context w0) () = (Inr ?twice, ())"
    by (simp add: eval_simps)
  from GetNamespaces_hides_default [OF dial2 list2]
  have twice: "fst (GetNamespaces lists_twice test_externals w0) = Inr (getNamespaces ?twice)"
    by (elim conjE)
  have names: "getNamespaces ?reported = [''staging'', ''prod'']"
    by (simp add: getNamespaces_def)
  have names2: "getNamespaces ?twice = [''edge'', ''edge'']"
    by (simp add: getNamespaces_def)
  from result absent once twice show ?thesis
    by (simp add: names names2)
qed

text \<open>
  C6 as stated (every other reported name exactly once) fails on an engine that reports
  a name twice: the name is in the result twice.
\<close>

theorem GetNamespaces_keeps_duplicates_counterexample:
  "fst (GetNamespaces lists_twice test_externals w0) = Inr [''edge'', ''edge'']
   \<and> count_list [''edge'', ''edge''] ''edge'' = 2"
  by (simp add: GetNamespaces_run eval_simps)

subsection \<open>C7: the next operation and its connection\<close>

text \<open>
  C7, as amended: in any state reached by any sequence of operations, whatever they
  returned, \<^verbatim>\<open>GetContainers\<close>, \<^verbatim>\<open>GetNamespaces\<close> and \<^verbatim>\<open>GetContainerTaskStatus\<close> dial
  exactly once and \<^verbatim>\<open>CreateContainer\<close> at least once, and no connection dialled by an
  operation was ever used before. \<^verbatim>\<open>StartContainer\<close>, \<^verbatim>\<open>StopContainer\<close> and
  \<^verbatim>\<open>IsContainerRunning\<close> dial nothing: they work on the container handle they are
  given.
\<close>

theorem dialling_operations_dial_anew:
  assumes reach: "w = perform_all E X ops (initial context' timeout' address' s)"
  shows "count_events is_dial (emitted w (snd (GetContainers E namespace w))) = 1
       \<and> count_events is_dial (emitted w (snd (GetNamespaces E X w))) = 1
       \<and> count_events is_dial (emitted w (snd (GetContainerTaskStatus E X containerID w))) = 1
       \<and> 1 \<le> count_events is_dial (emitted w (snd (CreateContainer E X pod container w)))
       \<and> count_events is_dial (emitted w (snd (StartContainer E handle w))) = 0
       \<and> count_events is_dial (emitted w (snd (StopContainer E handle w))) = 0
       \<and> count_events is_dial (emitted w (snd (IsContainerRunning E handle w))) = 0
       \<and> (\<forall>conn a. EvNew conn a \<in> set (emitted w (perform E X op w))
            \<longrightarrow> conn \<notin> set (connections (trace w)))"
proof -
  have "tidy w"
    unfolding reach by (rule tidy_reached)
  then have "\<forall>conn a. EvNew conn a \<in> set (emitted w (perform E X op w))
            \<longrightarrow> conn \<notin> set (connections (trace w))"
    using dial_not_traced [OF _ summary_perform] dial_in_dials
    by blast
  then show ?thesis
    using dials_CreateContainer [of w E X pod container]
    by (simp add: dials_GetContainers dials_GetNamespaces dials_GetContainerTaskStatus
          dials_StartContainer dials_StopContainer dials_IsContainerRunning)
qed

text \<open>
  After a listing of the containers and a start that failed, listing the containers dials
  connection 4.
\<close>

theorem dialling_operations_dial_anew_witness:
  "count_events is_dial
     (emitted after_failed_start (snd (GetContainers newtask_fails ''edge'' after_failed_start))) = 1
   \<and> \<lparr>conn_id = 4, conn_address = ''/run/containerd/containerd.sock'', conn_namespace = ''edge''\<rparr>
        \<notin> set (connections (trace after_failed_start))
   \<and> count_events is_dial
     (emitted after_failed_start (snd (StartContainer newtask_fails c1_handle after_failed_start))) = 0"
proof -
  let ?c = "\<lparr>conn_id = 4, conn_address = ''/run/containerd/containerd.sock'', conn_namespace = ''edge''\<rparr>"
  have "EvNew ?c None
          \<in> set (emitted after_failed_start
                  (perform newtask_fails test_externals (OpGetContainers ''edge'') after_failed_start))"
    by (simp add: after_failed_start_def StartContainer_run GetContainers_run observe_def
          eval_simps eval_nat_numeral)
  with dialling_operations_dial_anew [OF after_failed_start_def] show ?thesis
    by blast
qed

text \<open>
  C7 as stated (the operation after a failed one establishes a new connection) fails for
  \<^verbatim>\<open>StopContainer\<close> after a \<^verbatim>\<open>StartContainer\<close> that returned an error: no dial is made.
\<close>

theorem StopContainer_after_failure_dials_nothing:
  "fst (StartContainer newtask_fails c1_handle w0)
     = Some (WithMessage ''Error while creating task for container [c1]'' (Cause boom))
   \<and> count_events is_dial
        (emitted (snd (StartContainer newtask_fails c1_handle w0))
           (snd (StopContainer newtask_fails c1_handle (snd (StartContainer newtask_fails c1_handle w0)))))
      = 0"
  by (simp add: StartContainer_run StopContainer_run eval_simps)

subsection \<open>C8: starting a container\<close>



subsection \<open>C9: one context per operation, always cancelled\<close>

text \<open>
  C9: every public operation derives a context of its own from the wrapper's context:
  with the configured timeout when that is positive, by \<^verbatim>\<open>WithCancel\<close> (no deadline
  added) otherwise. It is a new object (the counter of objects grows). The derivation is
  the first event of the operation and the cancellation of that same context the last,
  each exactly once, on every path, whatever the engine answers. The same holds of
  \<^verbatim>\<open>ensureImagePulled\<close>, after the event that records its entry.
\<close>

theorem every_operation_scopes_its_context:
  "op_context w =
     (if 0 < timeout (self w)
      then WithTimeout (context_c (self w)) (timeout (self w)) (next_id w)
      else WithCancel (context_c (self w)) (next_id w))
   \<and> emitted w (perform E X op w) \<noteq> []
   \<and> hd (emitted w (perform E X op w)) = DeriveContext (op_context w)
   \<and> last (emitted w (perform E X op w)) = CancelContext (op_context w)
   \<and> count_list (emitted w (perform E X op w)) (DeriveContext (op_context w)) = 1
   \<and> count_list (emitted w (perform E X op w)) (CancelContext (op_context w)) = 1
   \<and> next_id w < next_id (perform E X op w)
   \<and> hd (tl (emitted w (snd (ensureImagePulled E namespace ref w)))) = DeriveContext (op_context w)
   \<and> last (emitted w (snd (ensureImagePulled E namespace ref w))) = CancelContext (op_context w)
   \<and> count_list (emitted w (snd (ensureImagePulled E namespace ref w))) (CancelContext (op_context w)) = 1"
proof -
  have "summary w (perform E X op w)"
    by (rule summary_perform)
  moreover have "op_context w = derived w (next_id w)"
    by (rule op_context_derived)
  moreover have
    "hd (tl (emitted w (snd (ensureImagePulled E namespace ref w)))) = DeriveContext (derived w (next_id w))
     \<and> last (emitted w (snd (ensureImagePulled E namespace ref w))) = CancelContext (derived w (next_id w))
     \<and> count_list (emitted w (snd (ensureImagePulled E namespace ref w))) (CancelContext (derived w (next_id w))) = 1"
    by (simp add: ensureImagePulled_run Let_def case_prod_beta split: sum.split option.split)
  ultimately show ?thesis
    by (simp add: summary_def derived_def)
qed

subsection \<open>C10: the cached connection is never set\<close>

text \<open>
  C10, as amended: in every state reached from a new wrapper by any sequence of
  operations the field \<^verbatim>\<open>client\<close> is nil. \<^verbatim>\<open>getConnection\<close> gives the same result
  whatever the field holds, leaves the wrapper's fields as they are, dials once on every
  call, and the connection it returns is a new object. \<^verbatim>\<open>resetConnection\<close> only sets the
  field to nil. So no operation takes a connection from the cache: an operation that
  takes no handle (\<^verbatim>\<open>GetContainers\<close>, \<^verbatim>\<open>CreateContainer\<close>, \<^verbatim>\<open>GetNamespaces\<close>,
  \<^verbatim>\<open>GetContainerTaskStatus\<close>) makes every engine call on a connection that no earlier
  call went over. \<^verbatim>\<open>StartContainer\<close>, \<^verbatim>\<open>StopContainer\<close> and \<^verbatim>\<open>IsContainerRunning\<close>
  make their engine calls on the connection held by the handle they are given, and on no
  other: the connection of the operation that made the handle.
\<close>

theorem cached_connection_never_set:
  assumes reach: "w = perform_all E X ops (initial context' timeout' address' s)"
  shows "client (self w) = None
       \<and> fst (getConnection E namespace (v\<lparr>self := (self v)\<lparr>client := cached\<rparr>\<rparr>))
           = fst (getConnection E namespace v)
       \<and> self (snd (getConnection E namespace v)) = self v
       \<and> count_events is_dial (emitted v (snd (getConnection E namespace v))) = 1
       \<and> (\<forall>conn. fst (getConnection E namespace v) = Inr conn
            \<longrightarrow> conn_id conn = next_id v
              \<and> EvNew conn None \<in> set (emitted v (snd (getConnection E namespace v))))
       \<and> self (resetConnection v) = (self v)\<lparr>client := None\<rparr>
       \<and> (\<forall>conn. handle_of op = None \<and> conn \<in> set (connections (emitted w (perform E X op w)))
            \<longrightarrow> conn \<notin> set (connections (trace w)))
       \<and> (\<forall>container conn.
             handle_of op = Some container
             \<and> conn \<in> set (connections (emitted w (perform E X op w)))
            \<longrightarrow> conn = container_client container)
       \<and> (\<forall>container. handle_of op = Some container
            \<longrightarrow> container_client container \<in> set (connections (emitted w (perform E X op w))))"
proof -
  have t: "tidy w"
    unfolding reach by (rule tidy_reached)
  then have nil: "client (self w) = None"
    by (simp add: tidy_def)
  have own: "\<forall>conn. handle_of op = None \<and> conn \<in> set (connections (emitted w (perform E X op w)))
            \<longrightarrow> conn \<notin> set (connections (trace w))"
    using own_not_traced [OF t] by blast
  have held: "\<forall>container conn.
             handle_of op = Some container
             \<and> conn \<in> set (connections (emitted w (perform E X op w)))
            \<longrightarrow> conn = container_client container"
    using held_perform [of op _ w E X] by (auto simp: list_all_iff)
  have used: "\<forall>container. handle_of op = Some container
            \<longrightarrow> container_client container \<in> set (connections (emitted w (perform E X op w)))"
    using held_perform [of op _ w E X] by blast
  have conn: "fst (getConnection E namespace (v\<lparr>self := (self v)\<lparr>client := cached\<rparr>\<rparr>))
           = fst (getConnection E namespace v)
       \<and> self (snd (getConnection E namespace v)) = self v
       \<and> count_events is_dial (emitted v (snd (getConnection E namespace v))) = 1
       \<and> (\<forall>conn. fst (getConnection E namespace v) = Inr conn
            \<longrightarrow> conn_id conn = next_id v
              \<and> EvNew conn None \<in> set (emitted v (snd (getConnection E namespace v))))"
    by (auto simp: getConnection_run run_simps split: prod.splits option.splits)
  have reset: "self (resetConnection v) = (self v)\<lparr>client := None\<rparr>"
    by (simp add: resetConnection_def emit_def)
  from nil own held used conn reset show ?thesis
    by blast
qed

text \<open>
  On the state after a start that failed, for a dial in the initial state, and for a start
  on the handle of a container created before.
\<close>

theorem cached_connection_never_set_witness:
  "client (self after_failed_start) = None
   \<and> fst (getConnection ok_engine ''edge'' w0)
       = Inr \<lparr>conn_id = 0, conn_address = ''/run/containerd/containerd.sock'', conn_namespace = ''edge''\<rparr>
   \<and> \<lparr>conn_id = 4, conn_address = ''/run/containerd/containerd.sock'', conn_namespace = ''edge''\<rparr>
        \<notin> set (connections (trace after_failed_start))
   \<and> container_client c1_handle
        \<in> set (connections
                 (emitted after_create
                    (perform ok_engine test_externals (OpStartContainer c1_handle) after_create)))"
proof -
  let ?c = "\<lparr>conn_id = 4, conn_address = ''/run/containerd/containerd.sock'', conn_namespace = ''edge''\<rparr>"
  let ?first = "\<lparr>conn_id = 0, conn_address = ''/run/containerd/containerd.sock'', conn_namespace = ''edge''\<rparr>"
  have "fst (getConnection ok_engine ''edge'' w0) = Inr ?first"
    by (simp add: getConnection_run eval_simps)
  with cached_connection_never_set [OF refl, where E = ok_engine and namespace = "''edge''" and v = w0]
  have dial: "conn_id ?first = next_id w0 \<and> fst (getConnection ok_engine ''edge'' w0) = Inr ?first"
    by blast
  have "handle_of (OpGetContainers ''edge'') = None
        \<and> ?c \<in> set (connections
                      (emitted after_failed_start
                         (perform newtask_fails test_externals (OpGetContainers ''edge'')
                            after_failed_start)))"
    by (simp add: after_failed_start_def StartContainer_run GetContainers_run observe_def
          eval_simps eval_nat_numeral)
  with cached_connection_never_set [OF after_failed_start_def]
  have fresh: "client (self after_failed_start) = None
      \<and> ?c \<notin> set (connections (trace after_failed_start))"
    by blast
  have "handle_of (OpStartContainer c1_handle) = Some c1_handle"
    by simp
  with cached_connection_never_set [OF after_create_def]
  have held: "container_client c1_handle
        \<in> set (connections
                 (emitted after_create
                    (perform ok_engine test_externals (OpStartContainer c1_handle) after_create)))"
    by blast
  from dial fresh held show ?thesis
    by simp
qed

text \<open>
  C10 as stated (no operation ever reuses a connection from a previous operation, even
  after success) fails for \<^verbatim>\<open>StartContainer\<close> on the handle that \<^verbatim>\<open>CreateContainer\<close>
  returned: both its engine calls go over the connection that \<^verbatim>\<open>CreateContainer\<close>
  dialled.
\<close>

theorem StartContainer_reuses_connection_counterexample:
  "fst (CreateContainer ok_engine test_externals edge_pod c1 w0) = Inr c1_handle
   \<and> container_client c1_handle \<in> set (dials (trace after_create))
   \<and> fst (StartContainer ok_engine c1_handle after_create) = None
   \<and> connections (emitted after_create (snd (StartContainer ok_engine c1_handle after_create)))
       = [container_client c1_handle, container_client c1_handle]"
  by (simp add: after_create_def CreateContainer_run StartContainer_run eval_simps eval_nat_numeral)

end
